theory Spec2Isabelle
  imports Complex_Main "HOL-Library.Multiset"
begin

section \<open>Outcomes of a call\<close>

text \<open>
  A Go \<^verbatim>\<open>error\<close> value is represented by its message. A method of the package either
  returns to its caller, ends the process through \<^verbatim>\<open>log.Fatalf\<close> (which prints the
  message and calls \<^verbatim>\<open>os.Exit(1)\<close>), or raises a run-time panic (\<^verbatim>\<open>panic(...)\<close>, a nil
  dereference, an index out of range). Console output (\<^verbatim>\<open>fmt.Println\<close>) is not part
  of the model.
\<close>

type_synonym error = string

datatype 'a outcome = Return 'a | Fatal string | Panic string

fun returns_to_caller :: "'a outcome \<Rightarrow> bool" where
  "returns_to_caller (Return _) = True"
| "returns_to_caller (Fatal _) = False"
| "returns_to_caller (Panic _) = False"

fun terminates_process :: "'a outcome \<Rightarrow> bool" where
  "terminates_process (Return _) = False"
| "terminates_process (Fatal _) = True"
| "terminates_process (Panic _) = True"

section \<open>Data model\<close>

text \<open>\<^verbatim>\<open>TestStatus\<close>, the verdict of a health probe.\<close>

record TestStatus =
  Status :: bool
  Info :: string
  Error :: "error option"

text \<open>
  The parts of \<^verbatim>\<open>v1.Node\<close> and \<^verbatim>\<open>v1.Pod\<close> the package reads. Nested paths are
  flattened into one record: \<open>node_Conditions\<close> is \<^verbatim>\<open>node.Status.Conditions\<close>,
  \<open>pod_Phase\<close> is \<^verbatim>\<open>pod.Status.Phase\<close>, \<open>pod_NodeName\<close> is \<^verbatim>\<open>pod.Spec.NodeName\<close>,
  \<open>pod_Containers\<close> is \<^verbatim>\<open>pod.Spec.Containers\<close> and \<open>ctr_Requests\<close> is
  \<^verbatim>\<open>container.Resources.Requests\<close>, a \<^verbatim>\<open>map[ResourceName]resource.Quantity\<close>. The type
  \<open>'q\<close> stands for \<^verbatim>\<open>resource.Quantity\<close>, which belongs to a library outside the
  repository.
\<close>

record NodeCondition =
  cond_Type :: string
  cond_Status :: string

record K8sNode =
  node_Name :: string
  node_Conditions :: "NodeCondition list"

record 'q Container =
  ctr_Name :: string
  ctr_Requests :: "string \<rightharpoonup> 'q"

record 'q Pod =
  pod_Name :: string
  pod_Namespace :: string
  pod_NodeName :: string
  pod_Containers :: "'q Container list"
  pod_Phase :: string

text \<open>\<^verbatim>\<open>metricsv1beta1.PodMetrics\<close> and its \<^verbatim>\<open>ContainerMetrics\<close>.\<close>

record 'q ContainerMetrics =
  cm_Name :: string
  cm_Usage :: "string \<rightharpoonup> 'q"

record 'q PodMetrics =
  pm_Name :: string
  pm_Namespace :: string
  pm_Containers :: "'q ContainerMetrics list"

text \<open>
  \<^verbatim>\<open>K8sClient\<close>. The three client handles answer requests against the cluster; the model
  holds, for each request the package issues, the answer the cluster gives. A listing
  answers with an error or with its items. \<^verbatim>\<open>Pods(ns).Get(name)\<close> answers with a pointer
  (\<open>None\<close> is \<^verbatim>\<open>nil\<close>) and an error (\<open>None\<close> is \<^verbatim>\<open>nil\<close>), both of which the caller
  receives. The type \<open>'u\<close> stands for the untyped document
  \<^verbatim>\<open>map[string]interface{}\<close> of an \<^verbatim>\<open>unstructured.Unstructured\<close>. \<open>Pods_List\<close> and
  \<open>PodMetricses_List\<close> take the namespace (\<^verbatim>\<open>""\<close> is all namespaces), \<open>Pods_Get\<close> the
  namespace and the name, \<open>Resource_Get\<close> the namespace and the name of the
  \<^verbatim>\<open>redisclusters\<close> resource of group \<^verbatim>\<open>db.ibm.com\<close>, version \<^verbatim>\<open>v1alpha1\<close>. No method
  modelled here issues the same request twice, so one answer per request is enough.
\<close>

record ('u, 'q) K8sClient =
  Nodes_List :: "error + K8sNode list"
  Pods_List :: "string \<Rightarrow> error + 'q Pod list"
  Pods_Get :: "string \<Rightarrow> string \<Rightarrow> 'q Pod option \<times> error option"
  PodMetricses_List :: "string \<Rightarrow> error + 'q PodMetrics list"
  Resource_Get :: "string \<Rightarrow> string \<Rightarrow> error + 'u"

section \<open>Formatting\<close>

text \<open>\<^verbatim>\<open>fmt.Sprintf("%d", n)\<close>: the decimal digits of an integer.\<close>

definition digit :: "nat \<Rightarrow> char" where
  "digit d = ''0123456789'' ! d"

fun fmt_nat :: "nat \<Rightarrow> string" where
  "fmt_nat n = (if n < 10 then [digit n] else fmt_nat (n div 10) @ [digit (n mod 10)])"

declare fmt_nat.simps [simp del]

definition Sprintf_d :: "int \<Rightarrow> string" where
  "Sprintf_d i = (if i < 0 then ''-'' @ fmt_nat (nat (- i)) else fmt_nat (nat i))"

section \<open>Health probes\<close>

subsection \<open>CheckNodes\<close>

text \<open>
  The inner loop over \<^verbatim>\<open>node.Status.Conditions\<close> and the outer loop over
  \<^verbatim>\<open>nodes.Items\<close>. Each returns \<open>Some\<close> verdict when the \<^verbatim>\<open>return\<close> inside the loop
  body is taken, and \<open>None\<close> when the loop runs to its end.
\<close>

fun CheckNodes_conditions :: "K8sNode \<Rightarrow> NodeCondition list \<Rightarrow> TestStatus option" where
  "CheckNodes_conditions node [] = None"
| "CheckNodes_conditions node (condition # rest) =
     (if cond_Type condition = ''Ready'' \<and> cond_Status condition \<noteq> ''True''
      then Some \<lparr>Status = False,
                 Info = ''Node '' @ node_Name node @ '' is not ready'' @ [CHR 0x0A],
                 Error = None\<rparr>
      else CheckNodes_conditions node rest)"

fun CheckNodes_items :: "K8sNode list \<Rightarrow> TestStatus option" where
  "CheckNodes_items [] = None"
| "CheckNodes_items (node # rest) =
     (case CheckNodes_conditions node (node_Conditions node) of
        Some verdict \<Rightarrow> Some verdict
      | None \<Rightarrow> CheckNodes_items rest)"

definition CheckNodes :: "('u, 'q) K8sClient \<Rightarrow> TestStatus" where
  "CheckNodes kc =
     (case Nodes_List kc of
        Inl err \<Rightarrow> \<lparr>Status = False, Info = '''', Error = Some err\<rparr>
      | Inr items \<Rightarrow>
          (case CheckNodes_items items of
             Some verdict \<Rightarrow> verdict
           | None \<Rightarrow> \<lparr>Status = True, Info = ''All nodes are ready'', Error = None\<rparr>))"

subsection \<open>CheckPods\<close>

text \<open>
  The counting loop. \<^verbatim>\<open>notRunningCount\<close> is a Go \<^verbatim>\<open>int\<close> that starts at 0 and grows
  by one per item, so it never exceeds the length of the slice and cannot wrap.
\<close>

definition notRunningCount :: "'q Pod list \<Rightarrow> int" where
  "notRunningCount items =
     foldl (\<lambda>count pod. if pod_Phase pod \<noteq> ''Running'' then count + 1 else count) 0 items"

definition CheckPods :: "('u, 'q) K8sClient \<Rightarrow> TestStatus" where
  "CheckPods kc =
     (case Pods_List kc '''' of
        Inl err \<Rightarrow> \<lparr>Status = False, Info = '''', Error = Some err\<rparr>
      | Inr items \<Rightarrow>
          (if notRunningCount items > 0
           then \<lparr>Status = False,
                 Info = Sprintf_d (notRunningCount items)
                          @ '' pods are in not running state'' @ [CHR 0x0A],
                 Error = None\<rparr>
           else \<lparr>Status = True, Info = ''All pods are running'', Error = None\<rparr>))"

section \<open>Libraries outside the repository\<close>

text \<open>
  The package calls into \<^verbatim>\<open>apimachinery\<close>, \<^verbatim>\<open>encoding/json\<close> and the Go run time. Their
  code is not part of the repository, so each function the package calls is a parameter
  of the model, collected in one record:
  \<^item> \<open>NestedMap\<close> is \<^verbatim>\<open>unstructured.NestedMap(obj, fields...)\<close> with its three results
    (the nested mapping, \<^verbatim>\<open>found\<close>, \<^verbatim>\<open>err\<close>);
  \<^item> \<open>json_Marshal\<close> is \<^verbatim>\<open>json.Marshal\<close> with its two results, and \<open>json_Unmarshal\<close> is
    \<^verbatim>\<open>json.Unmarshal\<close> into a zero \<^verbatim>\<open>ClusterStatus\<close>: the error, or the decoded value;
  \<^item> \<open>Quantity_empty\<close> is the zero value \<^verbatim>\<open>resource.Quantity{}\<close>, which indexing a
    \<^verbatim>\<open>ResourceList\<close> at an absent key yields; \<open>IsZero\<close>, \<open>MilliValue\<close>, \<open>Value\<close> and
    \<open>Quantity_String\<close> are the methods of \<^verbatim>\<open>resource.Quantity\<close>; \<open>ResourceList_Cpu\<close> and
    \<open>ResourceList_Memory\<close> are \<^verbatim>\<open>ResourceList.Cpu()\<close> and \<^verbatim>\<open>ResourceList.Memory()\<close>;
  \<^item> \<open>'f\<close> is \<^verbatim>\<open>float64\<close>: \<open>float64\<close> converts an \<^verbatim>\<open>int64\<close>, \<open>float_div\<close> and
    \<open>float_mul\<close> are its division and multiplication. Nothing is assumed about them.
\<close>

record Node =
  ID :: string
  IP :: string
  PodName :: string
  Port :: string
  Role :: string
  Slots :: "string list"
  PrimaryRef :: string
  Zone :: string

record Cluster =
  LabelSelectorPath :: string
  MaxReplicationFactor :: int
  MinReplicationFactor :: int
  Nodes :: "Node list"
  NumberOfPods :: int
  NumberOfPodsReady :: int
  NumberOfPrimaries :: int
  NumberOfPrimariesReady :: int
  NumberOfRedisNodesRunning :: int
  NumberOfReplicasPerPrimary :: "string \<rightharpoonup> int"
  cl_Status :: string

text \<open>A \<^verbatim>\<open>time.Time\<close> is kept as its text.\<close>

record Condition =
  LastProbeTime :: string
  LastTransitionTime :: string
  Message :: string
  Reason :: string
  cn_Status :: string
  cn_Type :: string

record ClusterStatus =
  cs_Cluster :: Cluster
  cs_Conditions :: "Condition list"
  StartTime :: string

record ('u, 'q, 'f) Lib =
  NestedMap :: "'u \<Rightarrow> string list \<Rightarrow> 'u \<times> bool \<times> error option"
  json_Marshal :: "'u \<Rightarrow> string \<times> error option"
  json_Unmarshal :: "string \<Rightarrow> error + ClusterStatus"
  Quantity_empty :: 'q
  IsZero :: "'q \<Rightarrow> bool"
  MilliValue :: "'q \<Rightarrow> int"
  Value :: "'q \<Rightarrow> int"
  Quantity_String :: "'q \<Rightarrow> string"
  ResourceList_Cpu :: "(string \<rightharpoonup> 'q) \<Rightarrow> 'q"
  ResourceList_Memory :: "(string \<rightharpoonup> 'q) \<Rightarrow> 'q"
  float64 :: "int \<Rightarrow> 'f"
  float_div :: "'f \<Rightarrow> 'f \<Rightarrow> 'f"
  float_mul :: "'f \<Rightarrow> 'f \<Rightarrow> 'f"

text \<open>\<^verbatim>\<open>fmt\<close>'s \<^verbatim>\<open>%v\<close> of an error: its message, or \<^verbatim>\<open><nil>\<close>.\<close>

definition Sprintf_v :: "error option \<Rightarrow> string" where
  "Sprintf_v err = (case err of None \<Rightarrow> ''<nil>'' | Some msg \<Rightarrow> msg)"

section \<open>ExecuteRemoteCommand\<close>

text \<open>
  The request the method builds, the executor \<^verbatim>\<open>remotecommand.NewSPDYExecutor\<close> makes for
  it and what \<^verbatim>\<open>exec.Stream\<close> does: an executor is given by the text its \<^verbatim>\<open>Stream\<close>
  writes to the two buffers and the error \<^verbatim>\<open>Stream\<close> returns. \<open>BuildConfigFromFlags\<close> is
  \<^verbatim>\<open>clientcmd.BuildConfigFromFlags("", *kubeconfig)\<close>; a nil executor is \<open>None\<close>.
\<close>

record PodExecOptions =
  opt_Command :: "string list"
  opt_Stdin :: bool
  opt_Stdout :: bool
  opt_Stderr :: bool
  opt_TTY :: bool

record Request =
  req_Verb :: string
  req_Namespace :: string
  req_Resource :: string
  req_Name :: string
  req_SubResource :: string
  req_Param_container :: string
  req_VersionedParams :: PodExecOptions

record Executor =
  Stream_Stdout :: string
  Stream_Stderr :: string
  Stream_error :: "error option"

record 'cfg Remote =
  BuildConfigFromFlags :: "error + 'cfg"
  NewSPDYExecutor :: "'cfg \<Rightarrow> string \<Rightarrow> Request \<Rightarrow> Executor option \<times> error option"

definition exec_request :: "string \<Rightarrow> string \<Rightarrow> string \<Rightarrow> string \<Rightarrow> Request" where
  "exec_request namespace pod container command =
     \<lparr>req_Verb = ''POST'', req_Namespace = namespace, req_Resource = ''pods'',
      req_Name = pod, req_SubResource = ''exec'', req_Param_container = container,
      req_VersionedParams =
        \<lparr>opt_Command = [''/bin/sh'', ''-c'', command], opt_Stdin = False,
         opt_Stdout = True, opt_Stderr = True, opt_TTY = True\<rparr>\<rparr>"

text \<open>
  A failure of \<^verbatim>\<open>BuildConfigFromFlags\<close> is a \<^verbatim>\<open>panic\<close> with the error's message. The errors
  of \<^verbatim>\<open>NewSPDYExecutor\<close> and of \<^verbatim>\<open>exec.Stream\<close> are assigned to the blank identifier;
  \<^verbatim>\<open>exec.Stream\<close> on a nil executor is a nil dereference. The third result is the literal
  \<^verbatim>\<open>nil\<close>. The receiver only supplies the REST client that builds the request.
\<close>

definition ExecuteRemoteCommand ::
  "'cfg Remote \<Rightarrow> string \<Rightarrow> string \<Rightarrow> string \<Rightarrow> string
     \<Rightarrow> (string \<times> string \<times> error option) outcome" where
  "ExecuteRemoteCommand rc namespace pod container command =
     (case BuildConfigFromFlags rc of
        Inl err \<Rightarrow> Panic err
      | Inr config \<Rightarrow>
          (case fst (NewSPDYExecutor rc config ''POST''
                       (exec_request namespace pod container command)) of
             None \<Rightarrow> Panic ''invalid memory address or nil pointer dereference''
           | Some exec \<Rightarrow> Return (Stream_Stdout exec, Stream_Stderr exec, None)))"

section \<open>GetRedisStatus\<close>

record missingDetails =
  Worker :: string
  CPU :: string
  Memory :: string

record RedisStatus =
  PrimariesConfigured :: int
  ReplicasConfigured :: int
  PodStatus :: bool
  ClusterState :: bool
  ClusterSlotsOk :: int
  ClusterKnownNodes :: int
  ClusterSize :: int
  ClusterSlotsPfail :: int
  ClusterSlotsFail :: int
  NumberActiveZones :: int
  RedisNodeDetails :: "Node list"
  NumberZonesPrimaries :: int
  NumberPrimariesInZone :: int
  PodDetails :: "string \<rightharpoonup> missingDetails"

text \<open>The zero value \<^verbatim>\<open>RedisStatus{}\<close>.\<close>

definition RedisStatus_zero :: RedisStatus where
  "RedisStatus_zero =
     \<lparr>PrimariesConfigured = 0, ReplicasConfigured = 0, PodStatus = False,
      ClusterState = False, ClusterSlotsOk = 0, ClusterKnownNodes = 0, ClusterSize = 0,
      ClusterSlotsPfail = 0, ClusterSlotsFail = 0, NumberActiveZones = 0,
      RedisNodeDetails = [], NumberZonesPrimaries = 0, NumberPrimariesInZone = 0,
      PodDetails = Map.empty\<rparr>"

text \<open>The closure of the \<^verbatim>\<open>NumberActiveZones\<close> field: \<^verbatim>\<open>len\<close> of the map of zones.\<close>

definition zoneMap_of :: "Node list \<Rightarrow> (string \<rightharpoonup> bool)" where
  "zoneMap_of nodes = foldl (\<lambda>zoneMap node. zoneMap(Zone node \<mapsto> True)) Map.empty nodes"

definition count_zones :: "Node list \<Rightarrow> int" where
  "count_zones nodes = int (card (dom (zoneMap_of nodes)))"

text \<open>
  The closure of the \<^verbatim>\<open>PodDetails\<close> field. The error of \<^verbatim>\<open>Get\<close> is printed and the loop
  body goes on with \<^verbatim>\<open>pod\<close>: \<^verbatim>\<open>pod.Spec\<close> on a nil pointer and
  \<^verbatim>\<open>pod.Spec.Containers[0]\<close> on an empty slice are run-time panics.
\<close>

fun PodDetails_loop ::
  "('u, 'q) K8sClient \<Rightarrow> ('u, 'q, 'f) Lib \<Rightarrow> string \<Rightarrow> Node list
     \<Rightarrow> (string \<rightharpoonup> missingDetails) \<Rightarrow> (string \<rightharpoonup> missingDetails) outcome" where
  "PodDetails_loop kc lib redis_namespace [] podDetails = Return podDetails"
| "PodDetails_loop kc lib redis_namespace (node # rest) podDetails =
     (case fst (Pods_Get kc redis_namespace (PodName node)) of
        None \<Rightarrow> Panic ''invalid memory address or nil pointer dereference''
      | Some pod \<Rightarrow>
          (case pod_Containers pod of
             [] \<Rightarrow> Panic ''index out of range [0] with length 0''
           | container # _ \<Rightarrow>
               PodDetails_loop kc lib redis_namespace rest
                 (podDetails(PodName node \<mapsto>
                    \<lparr>Worker = pod_NodeName pod,
                     CPU = Quantity_String lib (ResourceList_Cpu lib (ctr_Requests container)),
                     Memory = Quantity_String lib
                                (ResourceList_Memory lib (ctr_Requests container))\<rparr>))))"

definition GetRedisStatus ::
  "('u, 'q) K8sClient \<Rightarrow> ('u, 'q, 'f) Lib \<Rightarrow> RedisStatus outcome" where
  "GetRedisStatus kc lib =
     (case Resource_Get kc ''fed-redis-cluster'' ''node-for-redis'' of
        Inl err \<Rightarrow> Return RedisStatus_zero
      | Inr customResource \<Rightarrow>
          (case NestedMap lib customResource [''status''] of
             (status, found, err) \<Rightarrow>
               if err \<noteq> None \<or> \<not> found
               then Fatal (''Error fetching status field: '' @ Sprintf_v err)
               else
                 (case json_Unmarshal lib (fst (json_Marshal lib status)) of
                    Inl err \<Rightarrow> Fatal (''Error unmarshalling status field: '' @ err)
                  | Inr clusterStatus \<Rightarrow>
                      (case PodDetails_loop kc lib ''fed-redis-cluster''
                              (Nodes (cs_Cluster clusterStatus)) Map.empty of
                         Panic msg \<Rightarrow> Panic msg
                       | Fatal msg \<Rightarrow> Fatal msg
                       | Return podDetails \<Rightarrow>
                           Return
                             \<lparr>PrimariesConfigured = NumberOfPrimaries (cs_Cluster clusterStatus),
                              ReplicasConfigured = MaxReplicationFactor (cs_Cluster clusterStatus),
                              PodStatus = (NumberOfPods (cs_Cluster clusterStatus)
                                             = NumberOfPodsReady (cs_Cluster clusterStatus)),
                              ClusterState = (cl_Status (cs_Cluster clusterStatus) = ''OK''),
                              ClusterSlotsOk = int (length (Nodes (cs_Cluster clusterStatus))),
                              ClusterKnownNodes = int (length (Nodes (cs_Cluster clusterStatus))),
                              ClusterSize = NumberOfPods (cs_Cluster clusterStatus),
                              ClusterSlotsPfail = 0,
                              ClusterSlotsFail = 0,
                              NumberActiveZones = count_zones (Nodes (cs_Cluster clusterStatus)),
                              RedisNodeDetails = Nodes (cs_Cluster clusterStatus),
                              NumberZonesPrimaries = 1,
                              NumberPrimariesInZone = NumberOfPrimaries (cs_Cluster clusterStatus),
                              PodDetails = podDetails\<rparr>))))"

section \<open>GetResourceUsageReport\<close>

record 'f ContainerUsage =
  cu_Name :: string
  CPUUsage :: 'f
  MemoryUsage :: 'f

record 'f PodUsage =
  pu_PodName :: string
  pu_Namespace :: string
  ContainerUsages :: "'f ContainerUsage list"

record 'f ResourceUsageReport =
  PodsUsage :: "'f PodUsage list"

definition GetCPUUsagePercentage :: "('u, 'q, 'f) Lib \<Rightarrow> 'q \<Rightarrow> 'q \<Rightarrow> 'f" where
  "GetCPUUsagePercentage lib usage request =
     (if IsZero lib request then float64 lib 0
      else float_mul lib
             (float_div lib (float64 lib (MilliValue lib usage))
                            (float64 lib (MilliValue lib request)))
             (float64 lib 100))"

definition GetMemoryUsagePercentage :: "('u, 'q, 'f) Lib \<Rightarrow> 'q \<Rightarrow> 'q \<Rightarrow> 'f" where
  "GetMemoryUsagePercentage lib usage request =
     (if IsZero lib request then float64 lib 0
      else float_mul lib
             (float_div lib (float64 lib (Value lib usage))
                            (float64 lib (Value lib request)))
             (float64 lib 100))"

text \<open>
  \<^verbatim>\<open>v1.ResourceCPU\<close> and \<^verbatim>\<open>v1.ResourceMemory\<close>, indexing a \<^verbatim>\<open>ResourceList\<close> (an absent
  key yields the zero value), and the key \<^verbatim>\<open>fmt.Sprintf("%s/%s", namespace, name)\<close>.
\<close>

definition ResourceCPU :: string where
  "ResourceCPU = ''cpu''"

definition ResourceMemory :: string where
  "ResourceMemory = ''memory''"

definition index_ResourceList :: "('u, 'q, 'f) Lib \<Rightarrow> (string \<rightharpoonup> 'q) \<Rightarrow> string \<Rightarrow> 'q" where
  "index_ResourceList lib rl name = (case rl name of None \<Rightarrow> Quantity_empty lib | Some q \<Rightarrow> q)"

definition podKey :: "string \<Rightarrow> string \<Rightarrow> string" where
  "podKey namespace name = namespace @ ''/'' @ name"

definition podMetricsMap_of :: "'q PodMetrics list \<Rightarrow> (string \<rightharpoonup> 'q PodMetrics)" where
  "podMetricsMap_of items =
     foldl (\<lambda>podMetricsMap podMetrics.
              podMetricsMap(podKey (pm_Namespace podMetrics) (pm_Name podMetrics) \<mapsto> podMetrics))
       Map.empty items"

text \<open>
  The two inner loops: for every container of the pod, every entry of the pod's metrics
  with the container's name appends one \<^verbatim>\<open>ContainerUsage\<close>.
\<close>

definition containerusage_of ::
  "('u, 'q, 'f) Lib \<Rightarrow> 'q Container \<Rightarrow> 'q ContainerMetrics \<Rightarrow> 'f ContainerUsage" where
  "containerusage_of lib container containerMetrics =
     \<lparr>cu_Name = ctr_Name container,
      CPUUsage = GetCPUUsagePercentage lib
                   (index_ResourceList lib (cm_Usage containerMetrics) ResourceCPU)
                   (index_ResourceList lib (ctr_Requests container) ResourceCPU),
      MemoryUsage = GetMemoryUsagePercentage lib
                      (index_ResourceList lib (cm_Usage containerMetrics) ResourceMemory)
                      (index_ResourceList lib (ctr_Requests container) ResourceMemory)\<rparr>"

definition ContainerUsages_of ::
  "('u, 'q, 'f) Lib \<Rightarrow> 'q Pod \<Rightarrow> 'q PodMetrics \<Rightarrow> 'f ContainerUsage list" where
  "ContainerUsages_of lib pod podMetrics =
     foldl (\<lambda>usages container.
              foldl (\<lambda>usages containerMetrics.
                       if ctr_Name container = cm_Name containerMetrics
                       then usages @ [containerusage_of lib container containerMetrics]
                       else usages)
                usages (pm_Containers podMetrics))
       [] (pod_Containers pod)"

definition podusage_of ::
  "('u, 'q, 'f) Lib \<Rightarrow> (string \<rightharpoonup> 'q PodMetrics) \<Rightarrow> 'q Pod \<Rightarrow> 'f PodUsage" where
  "podusage_of lib podMetricsMap pod =
     \<lparr>pu_PodName = pod_Name pod,
      pu_Namespace = pod_Namespace pod,
      ContainerUsages =
        (case podMetricsMap (podKey (pod_Namespace pod) (pod_Name pod)) of
           Some podMetrics \<Rightarrow> ContainerUsages_of lib pod podMetrics
         | None \<Rightarrow> [])\<rparr>"

text \<open>The join itself, over the two listings once they are fetched.\<close>

definition usage_join ::
  "('u, 'q, 'f) Lib \<Rightarrow> 'q Pod list \<Rightarrow> 'q PodMetrics list \<Rightarrow> 'f ResourceUsageReport" where
  "usage_join lib pods items =
     \<lparr>PodsUsage =
        foldl (\<lambda>usages pod. usages @ [podusage_of lib (podMetricsMap_of items) pod]) [] pods\<rparr>"

definition GetResourceUsageReport ::
  "('u, 'q) K8sClient \<Rightarrow> ('u, 'q, 'f) Lib \<Rightarrow> 'f ResourceUsageReport outcome" where
  "GetResourceUsageReport kc lib =
     (case Pods_List kc '''' of
        Inl err \<Rightarrow> Fatal (''Error fetching pods: '' @ err)
      | Inr pods \<Rightarrow>
          (case PodMetricses_List kc '''' of
             Inl err \<Rightarrow> Fatal (''Error fetching pod metrics: '' @ err)
           | Inr items \<Rightarrow> Return (usage_join lib pods items)))"

section \<open>Predicates of the statements\<close>

text \<open>A node fails the readiness probe; the verdict that names it.\<close>

definition node_not_ready :: "K8sNode \<Rightarrow> bool" where
  "node_not_ready node =
     (\<exists>c \<in> set (node_Conditions node). cond_Type c = ''Ready'' \<and> cond_Status c \<noteq> ''True'')"

definition not_ready_verdict :: "K8sNode \<Rightarrow> TestStatus" where
  "not_ready_verdict node =
     \<lparr>Status = False, Info = ''Node '' @ node_Name node @ '' is not ready'' @ [CHR 0x0A],
      Error = None\<rparr>"

text \<open>
  The pod of a data-store node resolves: \<^verbatim>\<open>Get\<close> answers with a pod that has a first
  container. The key under which a metrics entry is indexed.
\<close>

definition pod_resolves :: "('u, 'q) K8sClient \<Rightarrow> Node \<Rightarrow> bool" where
  "pod_resolves kc node =
     (case fst (Pods_Get kc ''fed-redis-cluster'' (PodName node)) of
        None \<Rightarrow> False
      | Some pod \<Rightarrow> pod_Containers pod \<noteq> [])"

definition metrics_key :: "'q PodMetrics \<Rightarrow> string" where
  "metrics_key podMetrics = podKey (pm_Namespace podMetrics) (pm_Name podMetrics)"

section \<open>A concrete cluster\<close>

text \<open>
  The inputs at which the theorems below are instantiated. Quantities are whole numbers
  of thousandths and \<^verbatim>\<open>float64\<close> is read as a real number here; the theorems themselves
  hold for every choice of the library functions.
\<close>

definition demo_lib :: "(string option, int, real) Lib" where
  "demo_lib =
     \<lparr>NestedMap = (\<lambda>obj fields. (obj, obj \<noteq> None, None)),
      json_Marshal = (\<lambda>u. (case u of None \<Rightarrow> ''null'' | Some text \<Rightarrow> text, None)),
      json_Unmarshal = (\<lambda>text. Inl ''json: cannot unmarshal''),
      Quantity_empty = 0,
      IsZero = (\<lambda>q. q = 0),
      MilliValue = (\<lambda>q. q),
      Value = (\<lambda>q. - ((- q) div 1000)),
      Quantity_String = (\<lambda>q. Sprintf_d q @ ''m''),
      ResourceList_Cpu = (\<lambda>rl. case rl ''cpu'' of None \<Rightarrow> 0 | Some q \<Rightarrow> q),
      ResourceList_Memory = (\<lambda>rl. case rl ''memory'' of None \<Rightarrow> 0 | Some q \<Rightarrow> q),
      float64 = real_of_int,
      float_div = (\<lambda>a b. a / b),
      float_mul = (\<lambda>a b. a * b)\<rparr>"

definition demo_redis_node :: "string \<Rightarrow> string \<Rightarrow> Node" where
  "demo_redis_node pod zone =
     \<lparr>ID = pod, IP = ''10.0.0.1'', PodName = pod, Port = ''6379'', Role = ''Primary'',
      Slots = [], PrimaryRef = '''', Zone = zone\<rparr>"

definition demo_redis_nodes :: "Node list" where
  "demo_redis_nodes =
     [demo_redis_node ''redis-0'' ''zone-a'', demo_redis_node ''redis-1'' ''zone-b'',
      demo_redis_node ''redis-2'' ''zone-a'']"

definition demo_report :: ClusterStatus where
  "demo_report =
     \<lparr>cs_Cluster =
        \<lparr>LabelSelectorPath = '''', MaxReplicationFactor = 1, MinReplicationFactor = 1,
         Nodes = demo_redis_nodes,
         NumberOfPods = 3, NumberOfPodsReady = 3, NumberOfPrimaries = 3,
         NumberOfPrimariesReady = 3, NumberOfRedisNodesRunning = 3,
         NumberOfReplicasPerPrimary = Map.empty, cl_Status = ''OK''\<rparr>,
      cs_Conditions = [], StartTime = ''2024-01-01T00:00:00Z''\<rparr>"

definition decoding_lib :: "(string option, int, real) Lib" where
  "decoding_lib =
     demo_lib\<lparr>json_Unmarshal := (\<lambda>text.
       if text = ''status of node-for-redis'' then Inr demo_report
       else Inl ''json: cannot unmarshal'')\<rparr>"

definition demo_pod :: "string \<Rightarrow> string \<Rightarrow> string \<Rightarrow> int Pod" where
  "demo_pod namespace name phase =
     \<lparr>pod_Name = name, pod_Namespace = namespace, pod_NodeName = ''worker-1'',
      pod_Containers = [\<lparr>ctr_Name = ''app'', ctr_Requests = [''cpu'' \<mapsto> 500, ''memory'' \<mapsto> 2000]\<rparr>],
      pod_Phase = phase\<rparr>"

definition empty_pod :: "int Pod" where
  "empty_pod =
     \<lparr>pod_Name = '''', pod_Namespace = '''', pod_NodeName = '''', pod_Containers = [],
      pod_Phase = ''''\<rparr>"

definition demo_pods :: "int Pod list" where
  "demo_pods =
     [demo_pod ''default'' ''web'' ''Running'', demo_pod ''default'' ''job'' ''Succeeded'',
      demo_pod ''kube-system'' ''dns'' ''Pending'']"

definition demo_metrics :: "string \<Rightarrow> string \<Rightarrow> string \<Rightarrow> int PodMetrics" where
  "demo_metrics namespace name container =
     \<lparr>pm_Name = name, pm_Namespace = namespace,
      pm_Containers = [\<lparr>cm_Name = container, cm_Usage = [''cpu'' \<mapsto> 250, ''memory'' \<mapsto> 1000]\<rparr>]\<rparr>"

definition demo_metrics_items :: "int PodMetrics list" where
  "demo_metrics_items =
     [demo_metrics ''default'' ''web'' ''app'', demo_metrics ''kube-system'' ''dns'' ''app'']"

definition demo_worker_1 :: K8sNode where
  "demo_worker_1 =
     \<lparr>node_Name = ''worker-1'',
      node_Conditions = [\<lparr>cond_Type = ''Ready'', cond_Status = ''True''\<rparr>]\<rparr>"

definition demo_worker_2 :: K8sNode where
  "demo_worker_2 =
     \<lparr>node_Name = ''worker-2'',
      node_Conditions = [\<lparr>cond_Type = ''MemoryPressure'', cond_Status = ''False''\<rparr>,
                         \<lparr>cond_Type = ''Ready'', cond_Status = ''Unknown''\<rparr>]\<rparr>"

definition demo_client :: "(string option, int) K8sClient" where
  "demo_client =
     \<lparr>Nodes_List = Inr [demo_worker_1, demo_worker_2],
      Pods_List = (\<lambda>namespace. Inr demo_pods),
      Pods_Get = (\<lambda>namespace name. (Some (demo_pod namespace name ''Running''), None)),
      PodMetricses_List = (\<lambda>namespace. Inr demo_metrics_items),
      Resource_Get = (\<lambda>namespace name. Inr (Some ''status of node-for-redis''))\<rparr>"

text \<open>
  Variants of the cluster: the custom resource has no \<^verbatim>\<open>status\<close>; the pod listing cannot
  be fetched; the pod of \<^verbatim>\<open>redis-1\<close> does not exist, so that \<^verbatim>\<open>Get\<close> answers with an empty
  pod and an error, as the typed client does.
\<close>

definition client_without_status :: "(string option, int) K8sClient" where
  "client_without_status = demo_client\<lparr>Resource_Get := (\<lambda>namespace name. Inr None)\<rparr>"

definition client_listing_fails :: "(string option, int) K8sClient" where
  "client_listing_fails = demo_client\<lparr>Pods_List := (\<lambda>namespace. Inl ''connection refused'')\<rparr>"

definition client_pod_missing :: "(string option, int) K8sClient" where
  "client_pod_missing =
     demo_client\<lparr>Pods_Get := (\<lambda>namespace name.
       if name = ''redis-1'' then (Some empty_pod, Some ''pods redis-1 not found'')
       else (Some (demo_pod namespace name ''Running''), None))\<rparr>"

text \<open>
  An exec channel whose stream fails, and the listings of the cluster in another order.
\<close>

definition remote_stream_fails :: "unit Remote" where
  "remote_stream_fails =
     \<lparr>BuildConfigFromFlags = Inr (),
      NewSPDYExecutor = (\<lambda>config method request.
        (Some \<lparr>Stream_Stdout = '''', Stream_Stderr = '''',
               Stream_error = Some ''error dialing backend''\<rparr>, None))\<rparr>"

definition client_listings_permuted :: "(string option, int) K8sClient" where
  "client_listings_permuted =
     demo_client\<lparr>Pods_List := (\<lambda>namespace. Inr (rev demo_pods)),
                 PodMetricses_List := (\<lambda>namespace. Inr (rev demo_metrics_items))\<rparr>"

section \<open>The health probes\<close>

lemma CheckNodes_conditions_eq:
  "CheckNodes_conditions node cs =
     (if \<exists>c \<in> set cs. cond_Type c = ''Ready'' \<and> cond_Status c \<noteq> ''True''
      then Some (not_ready_verdict node) else None)"
  by (induction cs) (auto simp: not_ready_verdict_def)

lemma CheckNodes_items_None:
  "CheckNodes_items nodes = None \<longleftrightarrow> (\<forall>n \<in> set nodes. \<not> node_not_ready n)"
  by (induction nodes) (auto simp: CheckNodes_conditions_eq node_not_ready_def)

lemma CheckNodes_items_first:
  "\<forall>m \<in> set pre. \<not> node_not_ready m \<Longrightarrow> node_not_ready n \<Longrightarrow>
     CheckNodes_items (pre @ n # post) = Some (not_ready_verdict n)"
  by (induction pre) (auto simp: CheckNodes_conditions_eq node_not_ready_def)

lemma CheckNodes_items_Some_Status:
  "CheckNodes_items nodes = Some v \<Longrightarrow> \<not> Status v"
  by (induction nodes) (auto simp: CheckNodes_conditions_eq not_ready_verdict_def split: if_splits)

text \<open>
  C5. When the node listing is fetched, \<^verbatim>\<open>CheckNodes\<close> passes if and only if no node of the
  listing has a condition of type "Ready" whose status is not "True"; and when a node
  fails, the detail of the verdict names the first failing node of the listing.
\<close>

theorem CheckNodes_passes_iff_all_ready:
  assumes "Nodes_List kc = Inr nodes"
  shows "(Status (CheckNodes kc) \<longleftrightarrow>
           (\<forall>n \<in> set nodes. \<forall>c \<in> set (node_Conditions n).
              \<not> (cond_Type c = ''Ready'' \<and> cond_Status c \<noteq> ''True''))) \<and>
         (\<forall>pre n post. nodes = pre @ n # post \<and> (\<forall>m \<in> set pre. \<not> node_not_ready m) \<and>
              node_not_ready n \<longrightarrow>
            Info (CheckNodes kc) = ''Node '' @ node_Name n @ '' is not ready'' @ [CHR 0x0A])"
proof (intro conjI allI impI)
  show "Status (CheckNodes kc) \<longleftrightarrow>
           (\<forall>n \<in> set nodes. \<forall>c \<in> set (node_Conditions n).
              \<not> (cond_Type c = ''Ready'' \<and> cond_Status c \<noteq> ''True''))"
  proof (cases "CheckNodes_items nodes")
    case None
    with assms show ?thesis
      using CheckNodes_items_None [of nodes]
      by (auto simp: CheckNodes_def node_not_ready_def)
  next
    case (Some v)
    with assms show ?thesis
      using CheckNodes_items_None [of nodes] CheckNodes_items_Some_Status [of nodes v]
      by (auto simp: CheckNodes_def node_not_ready_def)
  qed
next
  fix pre n post
  assume "nodes = pre @ n # post \<and> (\<forall>m \<in> set pre. \<not> node_not_ready m) \<and> node_not_ready n"
  then show "Info (CheckNodes kc) = ''Node '' @ node_Name n @ '' is not ready'' @ [CHR 0x0A]"
    using assms CheckNodes_items_first [of pre n post]
    by (simp add: CheckNodes_def not_ready_verdict_def)
qed

theorem CheckNodes_passes_iff_all_ready_witness:
  "Nodes_List demo_client = Inr [demo_worker_1, demo_worker_2] \<and>
   \<not> node_not_ready demo_worker_1 \<and> node_not_ready demo_worker_2 \<and>
   \<not> Status (CheckNodes demo_client) \<and>
   Info (CheckNodes demo_client) = ''Node worker-2 is not ready'' @ [CHR 0x0A]"
proof -
  have l: "Nodes_List demo_client = Inr [demo_worker_1, demo_worker_2]"
    by (simp add: demo_client_def)
  have r1: "\<not> node_not_ready demo_worker_1"
    by (simp add: node_not_ready_def demo_worker_1_def)
  have r2: "node_not_ready demo_worker_2"
    by (simp add: node_not_ready_def demo_worker_2_def)
  have n: "node_Name demo_worker_2 = ''worker-2''"
    by (simp add: demo_worker_2_def)
  from CheckNodes_passes_iff_all_ready [OF l] have
    a: "Status (CheckNodes demo_client) \<longleftrightarrow>
          (\<forall>n \<in> set [demo_worker_1, demo_worker_2]. \<forall>c \<in> set (node_Conditions n).
              \<not> (cond_Type c = ''Ready'' \<and> cond_Status c \<noteq> ''True''))"
    and b: "\<forall>pre n post. [demo_worker_1, demo_worker_2] = pre @ n # post \<and>
              (\<forall>m \<in> set pre. \<not> node_not_ready m) \<and> node_not_ready n \<longrightarrow>
            Info (CheckNodes demo_client) = ''Node '' @ node_Name n @ '' is not ready'' @ [CHR 0x0A]"
    by blast+
  have s: "\<not> Status (CheckNodes demo_client)"
    using a r2 by (auto simp: node_not_ready_def)
  from b have "[demo_worker_1, demo_worker_2] = [demo_worker_1] @ demo_worker_2 # [] \<and>
              (\<forall>m \<in> set [demo_worker_1]. \<not> node_not_ready m) \<and> node_not_ready demo_worker_2 \<longrightarrow>
            Info (CheckNodes demo_client)
              = ''Node '' @ node_Name demo_worker_2 @ '' is not ready'' @ [CHR 0x0A]"
    by blast
  then have i: "Info (CheckNodes demo_client) = ''Node worker-2 is not ready'' @ [CHR 0x0A]"
    using r1 r2 n by simp
  show ?thesis using l r1 r2 s i by blast
qed

lemma notRunningCount_foldl:
  "foldl (\<lambda>count pod. if pod_Phase pod \<noteq> ''Running'' then count + 1 else count) k items
     = k + int (length (filter (\<lambda>pod. pod_Phase pod \<noteq> ''Running'') items))"
  by (induction items arbitrary: k) auto

lemma notRunningCount_eq:
  "notRunningCount items = int (length (filter (\<lambda>pod. pod_Phase pod \<noteq> ''Running'') items))"
  by (simp add: notRunningCount_def notRunningCount_foldl)

text \<open>
  C6. When the pod listing is fetched, the count of \<^verbatim>\<open>CheckPods\<close> is the number of pods whose
  phase is not exactly "Running"; the probe passes if and only if the count is zero;
  otherwise the detail holds the count; and a pod in phase "Succeeded" makes it fail.
\<close>

theorem CheckPods_counts_not_running:
  assumes "Pods_List kc '''' = Inr pods"
  shows "notRunningCount pods = int (length (filter (\<lambda>pod. pod_Phase pod \<noteq> ''Running'') pods)) \<and>
         (Status (CheckPods kc) \<longleftrightarrow> notRunningCount pods = 0) \<and>
         (notRunningCount pods \<noteq> 0 \<longrightarrow>
            Info (CheckPods kc) = Sprintf_d (notRunningCount pods)
                                    @ '' pods are in not running state'' @ [CHR 0x0A]) \<and>
         ((\<exists>pod \<in> set pods. pod_Phase pod = ''Succeeded'') \<longrightarrow> \<not> Status (CheckPods kc))"
proof -
  have nonneg: "0 \<le> notRunningCount pods"
    by (simp add: notRunningCount_eq)
  have succ: "\<exists>pod \<in> set pods. pod_Phase pod = ''Succeeded'' \<Longrightarrow> notRunningCount pods > 0"
  proof -
    assume "\<exists>pod \<in> set pods. pod_Phase pod = ''Succeeded''"
    then have "filter (\<lambda>pod. pod_Phase pod \<noteq> ''Running'') pods \<noteq> []"
      by (force simp: filter_empty_conv)
    then show ?thesis by (simp add: notRunningCount_eq)
  qed
  show ?thesis
    using assms nonneg succ notRunningCount_eq [of pods]
    by (auto simp: CheckPods_def)
qed

theorem CheckPods_counts_not_running_witness:
  "Pods_List demo_client '''' = Inr demo_pods \<and>
   notRunningCount demo_pods = 2 \<and>
   \<not> Status (CheckPods demo_client) \<and>
   Info (CheckPods demo_client) = ''2 pods are in not running state'' @ [CHR 0x0A]"
proof -
  have l: "Pods_List demo_client '''' = Inr demo_pods"
    by (simp add: demo_client_def)
  have c: "notRunningCount demo_pods = 2"
    by (simp add: notRunningCount_def demo_pods_def demo_pod_def)
  have d: "Sprintf_d 2 = ''2''"
    by (simp add: Sprintf_d_def fmt_nat.simps digit_def)
  show ?thesis
    using CheckPods_counts_not_running [OF l] l c d by simp
qed

section \<open>ExecuteRemoteCommand\<close>

lemma ExecuteRemoteCommand_error_nil:
  "ExecuteRemoteCommand rc namespace pod container command = Return (out, errOut, err)
     \<Longrightarrow> err = None"
  by (auto simp: ExecuteRemoteCommand_def split: sum.splits option.splits)

text \<open>
  C2. The exec channel is opened and \<^verbatim>\<open>Stream\<close> fails with an error: the method returns
  what was captured together with a nil error, so the failure does not reach the caller.
\<close>

theorem ExecuteRemoteCommand_drops_stream_error:
  assumes "BuildConfigFromFlags rc = Inr config"
    and "NewSPDYExecutor rc config ''POST'' (exec_request namespace pod container command)
           = (Some exec, None)"
    and "Stream_error exec = Some failure"
  shows "ExecuteRemoteCommand rc namespace pod container command
           = Return (Stream_Stdout exec, Stream_Stderr exec, None)"
  using assms by (simp add: ExecuteRemoteCommand_def)

theorem ExecuteRemoteCommand_drops_stream_error_witness:
  "BuildConfigFromFlags remote_stream_fails = Inr () \<and>
   ExecuteRemoteCommand remote_stream_fails ''fed-prometheus'' ''alertmanager-0''
       ''alertmanager'' ''amtool alert query''
     = Return ('''', '''', None)"
proof -
  have b: "BuildConfigFromFlags remote_stream_fails = Inr ()"
    by (simp add: remote_stream_fails_def)
  have n: "NewSPDYExecutor remote_stream_fails () ''POST''
             (exec_request ''fed-prometheus'' ''alertmanager-0'' ''alertmanager''
                ''amtool alert query'')
           = (Some \<lparr>Stream_Stdout = '''', Stream_Stderr = '''',
                    Stream_error = Some ''error dialing backend''\<rparr>, None)"
    by (simp add: remote_stream_fails_def)
  show ?thesis
    using ExecuteRemoteCommand_drops_stream_error [OF b n, of "''error dialing backend''"] b
    by simp
qed

section \<open>GetRedisStatus\<close>

lemma PodDetails_loop_unresolved:
  "node \<in> set nodes \<Longrightarrow> \<not> pod_resolves kc node \<Longrightarrow>
     \<exists>msg. PodDetails_loop kc lib ''fed-redis-cluster'' nodes podDetails = Panic msg"
proof (induction nodes arbitrary: podDetails)
  case Nil
  then show ?case by simp
next
  case (Cons n ns)
  show ?case
  proof (cases "pod_resolves kc n")
    case True
    with Cons.prems have "node \<in> set ns"
      by auto
    from Cons.IH [OF this Cons.prems(2)] True show ?thesis
      by (auto simp: pod_resolves_def split: option.splits list.splits)
  next
    case False
    then show ?thesis
      by (auto simp: pod_resolves_def split: option.splits list.splits)
  qed
qed

lemma PodDetails_loop_resolved:
  "\<forall>node \<in> set nodes. pod_resolves kc node \<Longrightarrow>
     \<exists>details. PodDetails_loop kc lib ''fed-redis-cluster'' nodes podDetails = Return details
        \<and> dom details = dom podDetails \<union> PodName ` set nodes"
proof (induction nodes arbitrary: podDetails)
  case Nil
  then show ?case by simp
next
  case (Cons n ns)
  from Cons.prems have n: "pod_resolves kc n" and ns: "\<forall>node \<in> set ns. pod_resolves kc node"
    by auto
  from n obtain pod c cs where
    pod: "fst (Pods_Get kc ''fed-redis-cluster'' (PodName n)) = Some pod"
    and c: "pod_Containers pod = c # cs"
    by (auto simp: pod_resolves_def neq_Nil_conv split: option.splits)
  define entry where "entry =
     \<lparr>Worker = pod_NodeName pod,
      CPU = Quantity_String lib (ResourceList_Cpu lib (ctr_Requests c)),
      Memory = Quantity_String lib (ResourceList_Memory lib (ctr_Requests c))\<rparr>"
  have step: "PodDetails_loop kc lib ''fed-redis-cluster'' (n # ns) podDetails
                = PodDetails_loop kc lib ''fed-redis-cluster'' ns (podDetails(PodName n \<mapsto> entry))"
    by (simp add: pod c entry_def)
  from Cons.IH [OF ns, of "podDetails(PodName n \<mapsto> entry)"] obtain details where
    "PodDetails_loop kc lib ''fed-redis-cluster'' ns (podDetails(PodName n \<mapsto> entry))
       = Return details"
    and "dom details = dom (podDetails(PodName n \<mapsto> entry)) \<union> PodName ` set ns"
    by blast
  with step show ?case
    by auto
qed

lemma GetRedisStatus_decoded:
  assumes "Resource_Get kc ''fed-redis-cluster'' ''node-for-redis'' = Inr customResource"
    and "NestedMap lib customResource [''status''] = (status, True, None)"
    and "json_Unmarshal lib (fst (json_Marshal lib status)) = Inr report"
  shows "GetRedisStatus kc lib =
     (case PodDetails_loop kc lib ''fed-redis-cluster'' (Nodes (cs_Cluster report)) Map.empty of
        Panic msg \<Rightarrow> Panic msg
      | Fatal msg \<Rightarrow> Fatal msg
      | Return podDetails \<Rightarrow>
          Return
            \<lparr>PrimariesConfigured = NumberOfPrimaries (cs_Cluster report),
             ReplicasConfigured = MaxReplicationFactor (cs_Cluster report),
             PodStatus = (NumberOfPods (cs_Cluster report) = NumberOfPodsReady (cs_Cluster report)),
             ClusterState = (cl_Status (cs_Cluster report) = ''OK''),
             ClusterSlotsOk = int (length (Nodes (cs_Cluster report))),
             ClusterKnownNodes = int (length (Nodes (cs_Cluster report))),
             ClusterSize = NumberOfPods (cs_Cluster report),
             ClusterSlotsPfail = 0,
             ClusterSlotsFail = 0,
             NumberActiveZones = count_zones (Nodes (cs_Cluster report)),
             RedisNodeDetails = Nodes (cs_Cluster report),
             NumberZonesPrimaries = 1,
             NumberPrimariesInZone = NumberOfPrimaries (cs_Cluster report),
             PodDetails = podDetails\<rparr>)"
  using assms by (simp add: GetRedisStatus_def)

lemma demo_decoded:
  "Resource_Get demo_client ''fed-redis-cluster'' ''node-for-redis''
     = Inr (Some ''status of node-for-redis'')"
  "NestedMap decoding_lib (Some ''status of node-for-redis'') [''status'']
     = (Some ''status of node-for-redis'', True, None)"
  "json_Unmarshal decoding_lib (fst (json_Marshal decoding_lib (Some ''status of node-for-redis'')))
     = Inr demo_report"
  by (simp_all add: demo_client_def decoding_lib_def demo_lib_def)

lemma demo_nodes_resolve:
  "\<forall>node \<in> set (Nodes (cs_Cluster demo_report)). pod_resolves demo_client node"
  by (simp add: demo_report_def demo_redis_nodes_def demo_redis_node_def pod_resolves_def
      demo_client_def demo_pod_def)

text \<open>
  C1, as the code has it. When the custom resource is fetched and its \<^verbatim>\<open>status\<close> is
  missing, is not a mapping, or does not decode into \<^verbatim>\<open>ClusterStatus\<close>, \<^verbatim>\<open>GetRedisStatus\<close>
  ends the process through \<^verbatim>\<open>log.Fatalf\<close> and nothing is returned to the caller.
\<close>

theorem GetRedisStatus_fatal_on_bad_status:
  assumes "Resource_Get kc ''fed-redis-cluster'' ''node-for-redis'' = Inr customResource"
    and "NestedMap lib customResource [''status''] = (status, found, err)"
    and "\<not> found \<or> err \<noteq> None \<or>
         (\<exists>e. json_Unmarshal lib (fst (json_Marshal lib status)) = Inl e)"
  shows "(\<exists>msg. GetRedisStatus kc lib = Fatal msg) \<and>
         terminates_process (GetRedisStatus kc lib) \<and>
         \<not> returns_to_caller (GetRedisStatus kc lib)"
proof -
  have "\<exists>msg. GetRedisStatus kc lib = Fatal msg"
    using assms by (auto simp: GetRedisStatus_def)
  then show ?thesis by auto
qed

theorem GetRedisStatus_fatal_on_bad_status_witness:
  "Resource_Get client_without_status ''fed-redis-cluster'' ''node-for-redis'' = Inr None \<and>
   NestedMap decoding_lib None [''status''] = (None, False, None) \<and>
   (\<exists>msg. GetRedisStatus client_without_status decoding_lib = Fatal msg) \<and>
   terminates_process (GetRedisStatus client_without_status decoding_lib)"
proof -
  have g: "Resource_Get client_without_status ''fed-redis-cluster'' ''node-for-redis'' = Inr None"
    by (simp add: client_without_status_def)
  have n: "NestedMap decoding_lib None [''status''] = (None, False, None)"
    by (simp add: decoding_lib_def demo_lib_def)
  show ?thesis
    using GetRedisStatus_fatal_on_bad_status [OF g n] g n by simp
qed

theorem GetRedisStatus_missing_status_counterexample:
  "Resource_Get client_without_status ''fed-redis-cluster'' ''node-for-redis'' = Inr None \<and>
   NestedMap decoding_lib None [''status''] = (None, False, None) \<and>
   GetRedisStatus client_without_status decoding_lib
     = Fatal ''Error fetching status field: <nil>'' \<and>
   \<not> returns_to_caller (GetRedisStatus client_without_status decoding_lib)"
  by (simp add: GetRedisStatus_def client_without_status_def decoding_lib_def demo_lib_def
      Sprintf_v_def)

text \<open>
  C3. When the pod of one node of the report does not resolve (\<^verbatim>\<open>Get\<close> answers with a nil
  pod or with a pod that has no container), the enrichment loop panics: no enrichment map
  and no status is produced for any node.
\<close>

theorem GetRedisStatus_panics_on_unresolved_pod:
  assumes "Resource_Get kc ''fed-redis-cluster'' ''node-for-redis'' = Inr customResource"
    and "NestedMap lib customResource [''status''] = (status, True, None)"
    and "json_Unmarshal lib (fst (json_Marshal lib status)) = Inr report"
    and "node \<in> set (Nodes (cs_Cluster report))"
    and "\<not> pod_resolves kc node"
  shows "\<exists>msg. GetRedisStatus kc lib = Panic msg"
  using PodDetails_loop_unresolved [OF assms(4,5), of lib Map.empty]
  by (auto simp: GetRedisStatus_decoded [OF assms(1-3)])

theorem GetRedisStatus_panics_on_unresolved_pod_witness:
  "Pods_Get client_pod_missing ''fed-redis-cluster'' ''redis-1''
     = (Some empty_pod, Some ''pods redis-1 not found'') \<and>
   demo_redis_node ''redis-1'' ''zone-b'' \<in> set (Nodes (cs_Cluster demo_report)) \<and>
   (\<exists>msg. GetRedisStatus client_pod_missing decoding_lib = Panic msg) \<and>
   GetRedisStatus client_pod_missing decoding_lib = Panic ''index out of range [0] with length 0''"
proof -
  have e: "GetRedisStatus client_pod_missing decoding_lib
             = Panic ''index out of range [0] with length 0''"
    by (simp add: GetRedisStatus_def client_pod_missing_def demo_client_def decoding_lib_def
        demo_lib_def demo_report_def demo_redis_nodes_def demo_redis_node_def demo_pod_def
        empty_pod_def)
  have g: "Resource_Get client_pod_missing ''fed-redis-cluster'' ''node-for-redis''
             = Inr (Some ''status of node-for-redis'')"
    by (simp add: client_pod_missing_def demo_client_def)
  have p: "Pods_Get client_pod_missing ''fed-redis-cluster'' ''redis-1''
             = (Some empty_pod, Some ''pods redis-1 not found'')"
    by (simp add: client_pod_missing_def)
  have m: "demo_redis_node ''redis-1'' ''zone-b'' \<in> set (Nodes (cs_Cluster demo_report))"
    by (simp add: demo_report_def demo_redis_nodes_def)
  have u: "\<not> pod_resolves client_pod_missing (demo_redis_node ''redis-1'' ''zone-b'')"
    by (simp add: pod_resolves_def p demo_redis_node_def empty_pod_def)
  show ?thesis
    using GetRedisStatus_panics_on_unresolved_pod [OF g demo_decoded(2,3) m u] p m e by simp
qed

lemma count_zones_dom:
  "dom (foldl (\<lambda>zoneMap node. zoneMap(Zone node \<mapsto> True)) m nodes) = dom m \<union> Zone ` set nodes"
  by (induction nodes arbitrary: m) auto

lemma count_zones_card: "count_zones nodes = int (card (Zone ` set nodes))"
  by (simp add: count_zones_def zoneMap_of_def count_zones_dom)

text \<open>
  C8. For a status document that decodes into a report, the \<^verbatim>\<open>NumberActiveZones\<close> of the
  status \<^verbatim>\<open>GetRedisStatus\<close> returns is the number of distinct zones of the report's nodes:
  1 when the list is not empty and all nodes share one zone, 0 when the list is empty.
\<close>

theorem GetRedisStatus_NumberActiveZones:
  assumes "Resource_Get kc ''fed-redis-cluster'' ''node-for-redis'' = Inr customResource"
    and "NestedMap lib customResource [''status''] = (status, True, None)"
    and "json_Unmarshal lib (fst (json_Marshal lib status)) = Inr report"
    and "GetRedisStatus kc lib = Return rs"
  shows "NumberActiveZones rs = int (card (Zone ` set (Nodes (cs_Cluster report)))) \<and>
         (Nodes (cs_Cluster report) \<noteq> [] \<and>
            (\<forall>node \<in> set (Nodes (cs_Cluster report)). Zone node = zone)
              \<longrightarrow> NumberActiveZones rs = 1) \<and>
         (Nodes (cs_Cluster report) = [] \<longrightarrow> NumberActiveZones rs = 0)"
proof -
  have z: "NumberActiveZones rs = int (card (Zone ` set (Nodes (cs_Cluster report))))"
    using assms(4) unfolding GetRedisStatus_decoded [OF assms(1-3)]
    by (auto simp: count_zones_card split: outcome.splits)
  have one: "Zone ` set (Nodes (cs_Cluster report)) = {zone}"
    if "Nodes (cs_Cluster report) \<noteq> []"
      and "\<forall>node \<in> set (Nodes (cs_Cluster report)). Zone node = zone"
  proof -
    from that(1) obtain n where "n \<in> set (Nodes (cs_Cluster report))"
      by (cases "Nodes (cs_Cluster report)") auto
    with that(2) show ?thesis by force
  qed
  show ?thesis
    using z one by auto
qed

theorem GetRedisStatus_NumberActiveZones_witness:
  "(\<exists>rs. GetRedisStatus demo_client decoding_lib = Return rs \<and> NumberActiveZones rs = 2) \<and>
   card (Zone ` set (Nodes (cs_Cluster demo_report))) = 2"
proof -
  from PodDetails_loop_resolved [OF demo_nodes_resolve, of decoding_lib Map.empty]
  obtain details where
    "PodDetails_loop demo_client decoding_lib ''fed-redis-cluster''
       (Nodes (cs_Cluster demo_report)) Map.empty = Return details"
    by blast
  then obtain rs where r: "GetRedisStatus demo_client decoding_lib = Return rs"
    by (simp add: GetRedisStatus_decoded [OF demo_decoded])
  have "Zone ` set (Nodes (cs_Cluster demo_report)) = {''zone-a'', ''zone-b''}"
    by (auto simp: demo_report_def demo_redis_nodes_def demo_redis_node_def)
  then have c: "card (Zone ` set (Nodes (cs_Cluster demo_report))) = 2"
    by simp
  show ?thesis
    using GetRedisStatus_NumberActiveZones [OF demo_decoded r] r c by simp
qed

text \<open>
  C10. For a status document that decodes into a report, \<^verbatim>\<open>GetRedisStatus\<close> returns when the
  pod of every node resolves, and every status it returns has \<^verbatim>\<open>ClusterSlotsPfail\<close> 0,
  \<^verbatim>\<open>ClusterSlotsFail\<close> 0, \<^verbatim>\<open>NumberZonesPrimaries\<close> 1, and \<^verbatim>\<open>ClusterSlotsOk\<close> and
  \<^verbatim>\<open>ClusterKnownNodes\<close> equal to the length of the report's node list.
\<close>

theorem GetRedisStatus_constant_fields:
  assumes "Resource_Get kc ''fed-redis-cluster'' ''node-for-redis'' = Inr customResource"
    and "NestedMap lib customResource [''status''] = (status, True, None)"
    and "json_Unmarshal lib (fst (json_Marshal lib status)) = Inr report"
  shows "((\<forall>node \<in> set (Nodes (cs_Cluster report)). pod_resolves kc node)
            \<longrightarrow> (\<exists>rs. GetRedisStatus kc lib = Return rs)) \<and>
         (\<forall>rs. GetRedisStatus kc lib = Return rs \<longrightarrow>
            ClusterSlotsPfail rs = 0 \<and> ClusterSlotsFail rs = 0 \<and>
            NumberZonesPrimaries rs = 1 \<and>
            ClusterSlotsOk rs = int (length (Nodes (cs_Cluster report))) \<and>
            ClusterKnownNodes rs = int (length (Nodes (cs_Cluster report))))"
proof (intro conjI impI allI)
  assume "\<forall>node \<in> set (Nodes (cs_Cluster report)). pod_resolves kc node"
  from PodDetails_loop_resolved [OF this, of lib Map.empty]
  show "\<exists>rs. GetRedisStatus kc lib = Return rs"
    by (auto simp: GetRedisStatus_decoded [OF assms])
next
  fix rs
  assume r: "GetRedisStatus kc lib = Return rs"
  then have "\<exists>details. rs =
       \<lparr>PrimariesConfigured = NumberOfPrimaries (cs_Cluster report),
        ReplicasConfigured = MaxReplicationFactor (cs_Cluster report),
        PodStatus = (NumberOfPods (cs_Cluster report) = NumberOfPodsReady (cs_Cluster report)),
        ClusterState = (cl_Status (cs_Cluster report) = ''OK''),
        ClusterSlotsOk = int (length (Nodes (cs_Cluster report))),
        ClusterKnownNodes = int (length (Nodes (cs_Cluster report))),
        ClusterSize = NumberOfPods (cs_Cluster report),
        ClusterSlotsPfail = 0,
        ClusterSlotsFail = 0,
        NumberActiveZones = count_zones (Nodes (cs_Cluster report)),
        RedisNodeDetails = Nodes (cs_Cluster report),
        NumberZonesPrimaries = 1,
        NumberPrimariesInZone = NumberOfPrimaries (cs_Cluster report),
        PodDetails = details\<rparr>"
    unfolding GetRedisStatus_decoded [OF assms]
    by (auto split: outcome.splits)
  then obtain details where rs: "rs =
       \<lparr>PrimariesConfigured = NumberOfPrimaries (cs_Cluster report),
        ReplicasConfigured = MaxReplicationFactor (cs_Cluster report),
        PodStatus = (NumberOfPods (cs_Cluster report) = NumberOfPodsReady (cs_Cluster report)),
        ClusterState = (cl_Status (cs_Cluster report) = ''OK''),
        ClusterSlotsOk = int (length (Nodes (cs_Cluster report))),
        ClusterKnownNodes = int (length (Nodes (cs_Cluster report))),
        ClusterSize = NumberOfPods (cs_Cluster report),
        ClusterSlotsPfail = 0,
        ClusterSlotsFail = 0,
        NumberActiveZones = count_zones (Nodes (cs_Cluster report)),
        RedisNodeDetails = Nodes (cs_Cluster report),
        NumberZonesPrimaries = 1,
        NumberPrimariesInZone = NumberOfPrimaries (cs_Cluster report),
        PodDetails = details\<rparr>"
    by blast
  show "ClusterSlotsPfail rs = 0" by (simp add: rs)
  show "ClusterSlotsFail rs = 0" by (simp add: rs)
  show "NumberZonesPrimaries rs = 1" by (simp add: rs)
  show "ClusterSlotsOk rs = int (length (Nodes (cs_Cluster report)))" by (simp add: rs)
  show "ClusterKnownNodes rs = int (length (Nodes (cs_Cluster report)))" by (simp add: rs)
qed

theorem GetRedisStatus_constant_fields_witness:
  "\<exists>rs. GetRedisStatus demo_client decoding_lib = Return rs \<and>
     ClusterSlotsPfail rs = 0 \<and> ClusterSlotsFail rs = 0 \<and> NumberZonesPrimaries rs = 1 \<and>
     ClusterSlotsOk rs = 3 \<and> ClusterKnownNodes rs = 3"
proof -
  have l: "int (length (Nodes (cs_Cluster demo_report))) = 3"
    by (simp add: demo_report_def demo_redis_nodes_def)
  show ?thesis
    using GetRedisStatus_constant_fields [OF demo_decoded] demo_nodes_resolve l by auto
qed

section \<open>GetResourceUsageReport\<close>

text \<open>
  C7. For every usage and request quantity: when the request is zero, the CPU and the memory
  percentage are the \<^verbatim>\<open>float64\<close> 0 whatever the usage is; otherwise they are the usage
  divided by the request, times 100, in \<^verbatim>\<open>float64\<close> arithmetic, over milli-units for CPU
  and over units for memory.
\<close>

theorem usage_percentage_zero_request:
  "(IsZero lib request \<longrightarrow>
      GetCPUUsagePercentage lib usage request = float64 lib 0 \<and>
      GetMemoryUsagePercentage lib usage request = float64 lib 0) \<and>
   (\<not> IsZero lib request \<longrightarrow>
      GetCPUUsagePercentage lib usage request =
        float_mul lib (float_div lib (float64 lib (MilliValue lib usage))
                                     (float64 lib (MilliValue lib request)))
                      (float64 lib 100) \<and>
      GetMemoryUsagePercentage lib usage request =
        float_mul lib (float_div lib (float64 lib (Value lib usage))
                                     (float64 lib (Value lib request)))
                      (float64 lib 100))"
  by (simp add: GetCPUUsagePercentage_def GetMemoryUsagePercentage_def)

theorem usage_percentage_zero_request_witness:
  "IsZero demo_lib 0 \<and>
   GetCPUUsagePercentage demo_lib 250 0 = 0 \<and>
   GetMemoryUsagePercentage demo_lib 250 0 = 0 \<and>
   \<not> IsZero demo_lib 500 \<and>
   GetCPUUsagePercentage demo_lib 250 500 = 50 \<and>
   GetMemoryUsagePercentage demo_lib 1000 2000 = 50"
proof -
  have z: "IsZero demo_lib 0" and nz: "\<not> IsZero demo_lib 500" "\<not> IsZero demo_lib 2000"
    by (simp_all add: demo_lib_def)
  have ops: "float64 demo_lib = real_of_int" "float_div demo_lib = (\<lambda>a b. a / b)"
    "float_mul demo_lib = (\<lambda>a b. a * b)" "MilliValue demo_lib = (\<lambda>q. q)"
    "Value demo_lib 1000 = 1" "Value demo_lib 2000 = 2"
    by (simp_all add: demo_lib_def)
  show ?thesis
    using usage_percentage_zero_request [of demo_lib 0 250]
      usage_percentage_zero_request [of demo_lib 500 250]
      usage_percentage_zero_request [of demo_lib 2000 1000]
      z nz
    by (simp add: ops)
qed

text \<open>
  C4, as the code has it. When the pod listing or the metrics snapshot cannot be fetched,
  \<^verbatim>\<open>GetResourceUsageReport\<close> ends the process through \<^verbatim>\<open>log.Fatalf\<close>; no report, empty or
  not, is returned to the caller.
\<close>

theorem GetResourceUsageReport_fatal_on_fetch_failure:
  assumes "(\<exists>err. Pods_List kc '''' = Inl err) \<or> (\<exists>err. PodMetricses_List kc '''' = Inl err)"
  shows "(\<exists>msg. GetResourceUsageReport kc lib = Fatal msg) \<and>
         terminates_process (GetResourceUsageReport kc lib) \<and>
         \<not> returns_to_caller (GetResourceUsageReport kc lib)"
proof -
  have "\<exists>msg. GetResourceUsageReport kc lib = Fatal msg"
    using assms by (auto simp: GetResourceUsageReport_def split: sum.splits)
  then show ?thesis by auto
qed

theorem GetResourceUsageReport_fatal_on_fetch_failure_witness:
  "Pods_List client_listing_fails '''' = Inl ''connection refused'' \<and>
   (\<exists>msg. GetResourceUsageReport client_listing_fails demo_lib = Fatal msg) \<and>
   terminates_process (GetResourceUsageReport client_listing_fails demo_lib)"
proof -
  have l: "Pods_List client_listing_fails '''' = Inl ''connection refused''"
    by (simp add: client_listing_fails_def)
  then have "(\<exists>err. Pods_List client_listing_fails '''' = Inl err) \<or>
             (\<exists>err. PodMetricses_List client_listing_fails '''' = Inl err)"
    by blast
  from GetResourceUsageReport_fatal_on_fetch_failure [OF this, of demo_lib] l
  show ?thesis by simp
qed

theorem GetResourceUsageReport_fetch_failure_counterexample:
  "Pods_List client_listing_fails '''' = Inl ''connection refused'' \<and>
   GetResourceUsageReport client_listing_fails demo_lib
     = Fatal ''Error fetching pods: connection refused'' \<and>
   GetResourceUsageReport client_listing_fails demo_lib \<noteq> Return \<lparr>PodsUsage = []\<rparr> \<and>
   \<not> returns_to_caller (GetResourceUsageReport client_listing_fails demo_lib)"
  by (simp add: GetResourceUsageReport_def client_listing_fails_def)

lemma append_loop_map: "foldl (\<lambda>acc x. acc @ [f x]) acc xs = acc @ map f xs"
  by (induction xs arbitrary: acc) auto

lemma usage_join_map:
  "PodsUsage (usage_join lib pods items) = map (podusage_of lib (podMetricsMap_of items)) pods"
  by (simp add: usage_join_def append_loop_map)

lemma index_loop_map_of:
  "foldl (\<lambda>m x. m(key x \<mapsto> x)) m xs = m ++ map_of (rev (map (\<lambda>x. (key x, x)) xs))"
  by (induction xs arbitrary: m) (auto simp: map_add_def split: option.splits)

lemma podMetricsMap_of_map_of:
  "podMetricsMap_of items = map_of (rev (map (\<lambda>podMetrics. (metrics_key podMetrics, podMetrics)) items))"
  unfolding podMetricsMap_of_def metrics_key_def [symmetric]
  by (simp add: index_loop_map_of)

lemma podMetricsMap_of_permuted:
  assumes "mset items' = mset items" and "distinct (map metrics_key items)"
  shows "podMetricsMap_of items' = podMetricsMap_of items"
proof -
  let ?kv = "\<lambda>podMetrics. (metrics_key podMetrics, podMetrics)"
  have "mset (map metrics_key items') = mset (map metrics_key items)"
    using assms(1) by simp
  then have d': "distinct (map metrics_key items')"
    using assms(2) by (metis mset_eq_imp_distinct_iff)
  have s: "set items' = set items"
    using assms(1) by (rule mset_eq_setD)
  have "map_of (rev (map ?kv items')) = map_of (rev (map ?kv items))"
  proof (subst map_of_inject_set)
    show "distinct (map fst (rev (map ?kv items')))"
      using d' by (simp add: rev_map [symmetric] comp_def)
    show "distinct (map fst (rev (map ?kv items)))"
      using assms(2) by (simp add: rev_map [symmetric] comp_def)
    show "set (rev (map ?kv items')) = set (rev (map ?kv items))"
      using s by simp
  qed
  then show ?thesis
    by (simp add: podMetricsMap_of_map_of)
qed

text \<open>
  C9. The join of \<^verbatim>\<open>GetResourceUsageReport\<close> does not depend on the order of its listings.
  A metrics snapshot is keyed by \<^verbatim>\<open>namespace/name\<close>: the cluster lists every object once,
  so no two of its entries have the same key. For every pod listing and every such
  snapshot, permuting the pod listing and the metrics snapshot leaves the set of
  \<^verbatim>\<open>PodUsage\<close> values of the report (and how often each occurs) unchanged.
\<close>

theorem GetResourceUsageReport_order_independent:
  assumes "Pods_List kc '''' = Inr pods" and "PodMetricses_List kc '''' = Inr items"
    and "Pods_List kc' '''' = Inr pods'" and "PodMetricses_List kc' '''' = Inr items'"
    and "mset pods' = mset pods" and "mset items' = mset items"
    and "distinct (map metrics_key items)"
  shows "\<exists>report report'.
           GetResourceUsageReport kc lib = Return report \<and>
           GetResourceUsageReport kc' lib = Return report' \<and>
           set (PodsUsage report') = set (PodsUsage report) \<and>
           mset (PodsUsage report') = mset (PodsUsage report)"
proof -
  have r: "GetResourceUsageReport kc lib = Return (usage_join lib pods items)"
    using assms(1,2) by (simp add: GetResourceUsageReport_def)
  have r': "GetResourceUsageReport kc' lib = Return (usage_join lib pods' items')"
    using assms(3,4) by (simp add: GetResourceUsageReport_def)
  have "mset (PodsUsage (usage_join lib pods' items'))
          = image_mset (podusage_of lib (podMetricsMap_of items')) (mset pods')"
    by (simp add: usage_join_map)
  also have "\<dots> = image_mset (podusage_of lib (podMetricsMap_of items)) (mset pods)"
    using podMetricsMap_of_permuted [OF assms(6,7)] assms(5) by simp
  also have "\<dots> = mset (PodsUsage (usage_join lib pods items))"
    by (simp add: usage_join_map)
  finally have m: "mset (PodsUsage (usage_join lib pods' items'))
                     = mset (PodsUsage (usage_join lib pods items))" .
  then have "set (PodsUsage (usage_join lib pods' items'))
               = set (PodsUsage (usage_join lib pods items))"
    by (rule mset_eq_setD)
  with r r' m show ?thesis by blast
qed

lemma demo_metrics_keys: "distinct (map metrics_key demo_metrics_items)"
  by (simp add: demo_metrics_items_def metrics_key_def podKey_def demo_metrics_def)

theorem GetResourceUsageReport_order_independent_witness:
  "mset (rev demo_pods) = mset demo_pods \<and>
   mset (rev demo_metrics_items) = mset demo_metrics_items \<and>
   distinct (map metrics_key demo_metrics_items) \<and>
   (\<exists>report report'.
      GetResourceUsageReport demo_client demo_lib = Return report \<and>
      GetResourceUsageReport client_listings_permuted demo_lib = Return report' \<and>
      set (PodsUsage report') = set (PodsUsage report))"
proof -
  have a: "Pods_List demo_client '''' = Inr demo_pods"
    "PodMetricses_List demo_client '''' = Inr demo_metrics_items"
    by (simp_all add: demo_client_def)
  have b: "Pods_List client_listings_permuted '''' = Inr (rev demo_pods)"
    "PodMetricses_List client_listings_permuted '''' = Inr (rev demo_metrics_items)"
    by (simp_all add: client_listings_permuted_def)
  have p: "mset (rev demo_pods) = mset demo_pods"
    "mset (rev demo_metrics_items) = mset demo_metrics_items"
    by simp_all
  from GetResourceUsageReport_order_independent [OF a b p demo_metrics_keys, of demo_lib]
  show ?thesis
    using p demo_metrics_keys by blast
qed

end
